theory Spec2Isabelle
  imports Main "HOL-Library.Sublist"
begin

section \<open>gqlfetch: from an introspection result to SDL text\<close>

text \<open>
  A shallow embedding of \<^verbatim>\<open>main.go\<close> of package \<^verbatim>\<open>gqlfetch\<close>: the decoded
  introspection structures, the resolver \<^verbatim>\<open>introspectionTypeToAstType\<close>, the printers
  \<^verbatim>\<open>printDirectives\<close>, \<^verbatim>\<open>printTypes\<close>, \<^verbatim>\<open>printInterface\<close>, \<^verbatim>\<open>printSchema\<close> and the part of
  \<^verbatim>\<open>BuildClientSchemaWithOptions\<close> that follows the decoding of the response body.

  Go strings are byte strings: \<^typ>\<open>string\<close>. A pointer is an \<^typ>\<open>'a option\<close>, \<open>None\<close>
  being \<^verbatim>\<open>nil\<close>. A \<^verbatim>\<open>*strings.Builder\<close> is the text written so far, passed in and
  returned. A Go \<^verbatim>\<open>error\<close> result is a \<open>goerror option\<close>, \<open>None\<close> being \<^verbatim>\<open>nil\<close>.
\<close>

subsection \<open>Text constants\<close>

definition NL :: string where
  "NL = [CHR 0x0A]"

definition TAB :: string where
  "TAB = [CHR 0x09]"

definition triple_quote :: string where
  \<open>triple_quote = ''"""''\<close>

subsection \<open>Outcomes of a call\<close>

text \<open>
  A call either returns or panics. The only panic this code can raise is the runtime's
  nil pointer dereference; no function of the package recovers from it.
\<close>

datatype 'a outcome = Returns 'a | NilPointerPanic

subsection \<open>The decoded introspection structures\<close>

text \<open>\<^verbatim>\<open>type introspectedType struct { Kind; Name *string; OfType *introspectedType }\<close>\<close>

datatype introspectedType =
  IntrospectedType (Kind: string) (Name: "string option") (OfType: "introspectedType option")

text \<open>The constants of \<^verbatim>\<open>introspectionTypeKind\<close>.\<close>

definition NON_NULL :: string where
  "NON_NULL = ''NON_NULL''"

definition LIST :: string where
  "LIST = ''LIST''"

definition OBJECT :: string where
  "OBJECT = ''OBJECT''"

text \<open>
  \<^verbatim>\<open>introspectionInputField\<close>; the anonymous struct of a directive's \<^verbatim>\<open>Args\<close> has the same
  fields and is modelled by the same record. \<^verbatim>\<open>DefaultValue\<close> is never read.
\<close>

record introspectionInputField =
  input_Name :: string
  input_Description :: string
  input_Type :: "introspectedType option"

text \<open>\<^verbatim>\<open>introspectedTypeField\<close>; \<^verbatim>\<open>IsDeprecated\<close> and \<^verbatim>\<open>DeprecationReason\<close> are never read.\<close>

record introspectedTypeField =
  field_Name :: string
  field_Description :: string
  field_Args :: "introspectionInputField list"
  field_Type :: "introspectedType option"

text \<open>\<^verbatim>\<open>introspectionDirectiveDefinition\<close>; a location is a string (\<^verbatim>\<open>ast.DirectiveLocation\<close>).\<close>

record introspectionDirectiveDefinition =
  directive_Name :: string
  directive_Description :: string
  directive_Locations :: "string list"
  directive_Args :: "introspectionInputField list"

text \<open>
  \<^verbatim>\<open>ast.Definition\<close> of the library \<^verbatim>\<open>gqlparser\<close>: only its \<^verbatim>\<open>Name\<close> is read here.
\<close>

record astDefinition =
  def_Name :: string

text \<open>\<^verbatim>\<open>ast.EnumValueDefinition\<close>: its \<^verbatim>\<open>Description\<close> and \<^verbatim>\<open>Name\<close> are read.\<close>

record astEnumValueDefinition =
  enum_Description :: string
  enum_Name :: string

text \<open>
  \<^verbatim>\<open>introspectionTypeDefinition\<close>. \<^verbatim>\<open>Kind\<close> is an \<^verbatim>\<open>ast.DefinitionKind\<close>, a string;
  \<^verbatim>\<open>EnumValues\<close> and \<^verbatim>\<open>PossibleTypes\<close> are \<^verbatim>\<open>json.RawMessage\<close>, the undecoded bytes.
\<close>

record introspectionTypeDefinition =
  typ_Kind :: string
  typ_Name :: string
  typ_Description :: string
  typ_Fields :: "introspectedTypeField list"
  typ_InputFields :: "introspectionInputField list"
  typ_Interfaces :: "astDefinition list"
  typ_EnumValues :: string
  typ_PossibleTypes :: string

text \<open>The constants of \<^verbatim>\<open>ast.DefinitionKind\<close> in the library \<^verbatim>\<open>gqlparser\<close>.\<close>

definition Scalar :: string where
  "Scalar = ''SCALAR''"

definition Object :: string where
  "Object = ''OBJECT''"

definition Interface :: string where
  "Interface = ''INTERFACE''"

definition Union :: string where
  "Union = ''UNION''"

definition Enum :: string where
  "Enum = ''ENUM''"

definition InputObject :: string where
  "InputObject = ''INPUT_OBJECT''"

record introspectionSchema =
  QueryType :: astDefinition
  MutationType :: astDefinition
  Types :: "introspectionTypeDefinition list"
  Directives :: "introspectionDirectiveDefinition list"

text \<open>
  \<^verbatim>\<open>introspectionResults\<close>: \<open>Errors\<close> holds the \<^verbatim>\<open>Message\<close> of each entry of the
  \<^verbatim>\<open>errors\<close> array, \<open>Data_Schema\<close> is \<^verbatim>\<open>Data.Schema\<close>.
\<close>

record introspectionResults =
  Errors :: "string list"
  Data_Schema :: introspectionSchema

subsection \<open>Errors\<close>

text \<open>
  One constructor for each way the code builds an error:
  \<^item> \<open>ErrorString s\<close>: \<^verbatim>\<open>errors.New(s)\<close>, a \<^verbatim>\<open>fmt.Errorf\<close> whose text is \<open>s\<close>, or an error of
    \<^verbatim>\<open>json.Unmarshal\<close> with text \<open>s\<close>;
  \<^item> \<open>ConvertError err ref\<close>:
    \<^verbatim>\<open>fmt.Errorf("convert introspection type to AST type: %w\n%v", err, ref)\<close>;
  \<^item> \<open>EnumValuesError err raw\<close>:
    \<^verbatim>\<open>fmt.Errorf("cannot unmarshal enum values: %w\n%v", err, raw)\<close>;
  \<^item> \<open>NotHandlingKind kind\<close>: \<^verbatim>\<open>fmt.Errorf(fmt.Sprintf("not handling kind: %v", kind))\<close>;
  \<^item> \<open>CannotPrintAs kind\<close>: \<^verbatim>\<open>fmt.Errorf("cannot print %v as %v", kind, ast.Interface)\<close>.
\<close>

datatype goerror =
    ErrorString string
  | ConvertError goerror "introspectedType option"
  | EnumValuesError goerror string
  | NotHandlingKind string
  | CannotPrintAs string

text \<open>\<^verbatim>\<open>errors.Unwrap\<close>: the error wrapped with \<^verbatim>\<open>%w\<close>, if any.\<close>

fun Unwrap :: "goerror \<Rightarrow> goerror option" where
  "Unwrap (ConvertError err ref) = Some err"
| "Unwrap (EnumValuesError err raw) = Some err"
| "Unwrap (ErrorString s) = None"
| "Unwrap (NotHandlingKind kind) = None"
| "Unwrap (CannotPrintAs kind) = None"

text \<open>The innermost error of a chain of wrappings.\<close>

fun rootCause :: "goerror \<Rightarrow> goerror" where
  "rootCause (ConvertError err ref) = rootCause err"
| "rootCause (EnumValuesError err raw) = rootCause err"
| "rootCause (ErrorString s) = ErrorString s"
| "rootCause (NotHandlingKind kind) = NotHandlingKind kind"
| "rootCause (CannotPrintAs kind) = CannotPrintAs kind"

text \<open>
  What \<^verbatim>\<open>fmt\<close> prints for an operand whose text the program does not determine: a
  pointer to an \<^verbatim>\<open>introspectedType\<close> under \<^verbatim>\<open>%v\<close> (it shows addresses), a
  \<^verbatim>\<open>json.RawMessage\<close> under \<^verbatim>\<open>%v\<close>, and a text used as a format with no operands
  (\<^verbatim>\<open>fmt\<close> rewrites its \<^verbatim>\<open>%\<close> verbs).
\<close>

datatype fmtOperand =
    PointerOperand "introspectedType option"
  | RawOperand string
  | FormatOperand string

text \<open>The method \<^verbatim>\<open>Error()\<close>: the message, given the printing \<open>pv\<close> of such operands.\<close>

fun Error :: "(fmtOperand \<Rightarrow> string) \<Rightarrow> goerror \<Rightarrow> string" where
  "Error pv (ErrorString s) = s"
| "Error pv (ConvertError err ref) =
     ''convert introspection type to AST type: '' @ Error pv err @ NL @ pv (PointerOperand ref)"
| "Error pv (EnumValuesError err raw) =
     ''cannot unmarshal enum values: '' @ Error pv err @ NL @ pv (RawOperand raw)"
| "Error pv (NotHandlingKind kind) = pv (FormatOperand (''not handling kind: '' @ kind))"
| "Error pv (CannotPrintAs kind) = ''cannot print '' @ kind @ '' as '' @ Interface"

subsection \<open>The type expression of the library and its rendering\<close>

text \<open>
  \<^verbatim>\<open>ast.Type\<close> of the library \<^verbatim>\<open>gqlparser\<close>:
  \<^verbatim>\<open>struct { NamedType string; Elem *Type; NonNull bool; Position *Position }\<close>.
  \<^verbatim>\<open>Position\<close> is never set here.
\<close>

datatype astType =
  Type (NamedType: string) (Elem: "astType option") (NonNull: bool)

text \<open>
  Modelled from the spec: the method \<^verbatim>\<open>String\<close> of \<^verbatim>\<open>ast.Type\<close>, which belongs to the
  library \<^verbatim>\<open>github.com/vektah/gqlparser\<close> and is not among the sources. The spec gives
  the renderings \<^verbatim>\<open>Name\<close>, \<^verbatim>\<open>[Name]\<close>, \<^verbatim>\<open>Name!\<close>, \<^verbatim>\<open>[Name!]!\<close>; the library's method is
  \<^verbatim>\<open>nn := ""; if t.NonNull { nn = "!" }; if t.NamedType != "" { return t.NamedType + nn };
  return "[" + t.Elem.String() + "]" + nn\<close>,
  which dereferences \<^verbatim>\<open>t.Elem\<close> when the name is empty.
\<close>

fun Type_String :: "astType \<Rightarrow> string outcome" where
  "Type_String (Type named None nonNull) =
     (if named \<noteq> [] then Returns (named @ (if nonNull then ''!'' else ''''))
      else NilPointerPanic)"
| "Type_String (Type named (Some elem) nonNull) =
     (if named \<noteq> [] then Returns (named @ (if nonNull then ''!'' else ''''))
      else (case Type_String elem of
              NilPointerPanic \<Rightarrow> NilPointerPanic
            | Returns s \<Rightarrow> Returns (''['' @ s @ '']'' @ (if nonNull then ''!'' else ''''))))"

subsection \<open>The resolver\<close>

text \<open>
  \<^verbatim>\<open>introspectionTypeToAstType\<close>. It reads \<^verbatim>\<open>typ.OfType\<close> first, so a nil \<^verbatim>\<open>typ\<close> panics;
  at a node with no inner reference it reads \<^verbatim>\<open>*typ.Name\<close>, so a nil name panics. The
  result is \<open>Inl err\<close> for \<^verbatim>\<open>(nil, err)\<close> and \<open>Inr t\<close> for \<^verbatim>\<open>(&t, nil)\<close>.
\<close>

fun introspectionTypeToAstType :: "introspectedType option \<Rightarrow> (goerror + astType) outcome" where
  "introspectionTypeToAstType None = NilPointerPanic"
| "introspectionTypeToAstType (Some (IntrospectedType kind name None)) =
     (case name of
        None \<Rightarrow> NilPointerPanic
      | Some n \<Rightarrow> Returns (Inr (Type n None False)))"
| "introspectionTypeToAstType (Some (IntrospectedType kind name (Some inner))) =
     (if kind = NON_NULL then
        (case introspectionTypeToAstType (Some inner) of
           NilPointerPanic \<Rightarrow> NilPointerPanic
         | Returns (Inl err) \<Rightarrow> Returns (Inl (ConvertError err (Some inner)))
         | Returns (Inr astType) \<Rightarrow>
             Returns (Inr (Type (NamedType astType) (Elem astType) True)))
      else if kind = LIST then
        (case introspectionTypeToAstType (Some inner) of
           NilPointerPanic \<Rightarrow> NilPointerPanic
         | Returns (Inl err) \<Rightarrow> Returns (Inl (ConvertError err (Some inner)))
         | Returns (Inr astType) \<Rightarrow> Returns (Inr (Type [] (Some astType) False)))
      else Returns (Inl (ErrorString (''type kind unknown: '' @ kind))))"

subsection \<open>Helpers on strings\<close>

text \<open>\<^verbatim>\<open>strings.HasPrefix\<close>.\<close>

definition HasPrefix :: "string \<Rightarrow> string \<Rightarrow> bool" where
  "HasPrefix s pre = (length pre \<le> length s \<and> take (length pre) s = pre)"

text \<open>\<^verbatim>\<open>strings.Join\<close>.\<close>

fun Join :: "string list \<Rightarrow> string \<Rightarrow> string" where
  "Join [] sep = []"
| "Join [x] sep = x"
| "Join (x # y # ys) sep = x @ sep @ Join (y # ys) sep"

definition excludeScalarTypes :: "string list" where
  "excludeScalarTypes = [''ID'', ''Int'', ''String'', ''Float'', ''Boolean'']"

definition excludeDirectives :: "string list" where
  "excludeDirectives = [''deprecated'', ''include'', ''skip'']"

fun containsStr :: "string \<Rightarrow> string list \<Rightarrow> bool" where
  "containsStr needle [] = False"
| "containsStr needle (s # hay) = (if needle = s then True else containsStr needle hay)"

subsection \<open>Printing steps\<close>

text \<open>
  A printing function takes the builder's text and returns the text after its writes,
  with the error it returns; a panic leaves no result.
\<close>

type_synonym printed = "(string \<times> goerror option) outcome"

text \<open>
  Sequencing inside one Go function: when the first step returned an error, the function
  returns it at once; when it panicked, so does the function.
\<close>

definition andThen :: "printed \<Rightarrow> (string \<Rightarrow> printed) \<Rightarrow> printed" where
  "andThen r k =
     (case r of
        NilPointerPanic \<Rightarrow> NilPointerPanic
      | Returns (sb, Some err) \<Rightarrow> Returns (sb, Some err)
      | Returns (sb, None) \<Rightarrow> k sb)"

text \<open>\<^verbatim>\<open>printDescription\<close>.\<close>

definition printDescription :: "string \<Rightarrow> string \<Rightarrow> string" where
  "printDescription sb description =
     (if description \<noteq> [] then sb @ triple_quote @ description @ triple_quote @ NL else sb)"

text \<open>
  The statements that recur at each type reference \<open>ref\<close>:
  \<^verbatim>\<open>astType, err := introspectionTypeToAstType(ref);
  if err != nil { return fmt.Errorf("convert introspection type to AST type: %w\n%v", err, ref) };
  sb.WriteString(fmt.Sprintf(format, ..., astType.String()))\<close>,
  \<open>format\<close> giving the text written from the rendering.
\<close>

definition writeAstType :: "string \<Rightarrow> introspectedType option \<Rightarrow> (string \<Rightarrow> string) \<Rightarrow> printed" where
  "writeAstType sb ref format =
     (case introspectionTypeToAstType ref of
        NilPointerPanic \<Rightarrow> NilPointerPanic
      | Returns (Inl err) \<Rightarrow> Returns (sb, Some (ConvertError err ref))
      | Returns (Inr astType) \<Rightarrow>
          (case Type_String astType of
             NilPointerPanic \<Rightarrow> NilPointerPanic
           | Returns s \<Rightarrow> Returns (sb @ format s, None)))"

text \<open>
  The loops \<^verbatim>\<open>for i, x := range xs { sb.WriteString(x); if i < len(xs)-1 { sb.WriteString(sep) } }\<close>
  over a directive's locations and an object's interfaces.
\<close>

fun writeSeparated :: "string \<Rightarrow> string \<Rightarrow> string list \<Rightarrow> string" where
  "writeSeparated sep sb [] = sb"
| "writeSeparated sep sb [x] = sb @ x"
| "writeSeparated sep sb (x # y # ys) = writeSeparated sep (sb @ x @ sep) (y # ys)"

text \<open>
  The loops \<^verbatim>\<open>for _, arg := range Args\<close>: in \<^verbatim>\<open>printDirectives\<close> (indentation one tab,
  descriptions printed), in the Object case of \<^verbatim>\<open>printTypes\<close> (two tabs, descriptions
  printed) and in \<^verbatim>\<open>printInterface\<close> (two tabs, no description printed).
\<close>

fun printArgs :: "string \<Rightarrow> bool \<Rightarrow> string \<Rightarrow> introspectionInputField list \<Rightarrow> printed" where
  "printArgs indent described sb [] = Returns (sb, None)"
| "printArgs indent described sb (arg # args) =
     andThen
       (writeAstType (if described then printDescription sb (input_Description arg) else sb)
          (input_Type arg) (\<lambda>s. indent @ input_Name arg @ '': '' @ s @ NL))
       (\<lambda>sb'. printArgs indent described sb' args)"

text \<open>
  A field from its name on, as the Object case and \<^verbatim>\<open>printInterface\<close> both write it:
  the name, the arguments in parentheses when there are any, then the type.
\<close>

definition printFieldSignature :: "bool \<Rightarrow> string \<Rightarrow> introspectedTypeField \<Rightarrow> printed" where
  "printFieldSignature described sb field =
     andThen
       (if length (field_Args field) > 0 then
          andThen (printArgs (TAB @ TAB) described (sb @ TAB @ field_Name field @ ''('' @ NL) (field_Args field))
            (\<lambda>sb'. Returns (sb' @ TAB @ '')'', None))
        else Returns (sb @ TAB @ field_Name field, None))
       (\<lambda>sb'. writeAstType sb' (field_Type field) (\<lambda>s. '': '' @ s @ NL))"

subsection \<open>printDirectives\<close>

text \<open>The body of the loop of \<^verbatim>\<open>printDirectives\<close> for a directive that is not skipped.\<close>

definition printDirectives_body :: "string \<Rightarrow> introspectionDirectiveDefinition \<Rightarrow> printed" where
  "printDirectives_body sb directive =
     andThen
       (if length (directive_Args directive) > 0 then
          andThen
            (printArgs TAB True
               (printDescription sb (directive_Description directive)
                  @ ''directive @'' @ directive_Name directive @ ''('' @ NL)
               (directive_Args directive))
            (\<lambda>sb'. Returns (sb' @ '')'', None))
        else Returns (printDescription sb (directive_Description directive)
               @ ''directive @'' @ directive_Name directive, None))
       (\<lambda>sb'. Returns
          (writeSeparated '' | '' (sb' @ '' on '') (directive_Locations directive) @ NL @ NL, None))"

fun printDirectives :: "string \<Rightarrow> introspectionDirectiveDefinition list \<Rightarrow> bool \<Rightarrow> printed" where
  "printDirectives sb [] withoutBuiltins = Returns (sb, None)"
| "printDirectives sb (directive # directives) withoutBuiltins =
     (if withoutBuiltins \<and> containsStr (directive_Name directive) excludeDirectives
      then printDirectives sb directives withoutBuiltins
      else andThen (printDirectives_body sb directive)
             (\<lambda>sb'. printDirectives sb' directives withoutBuiltins))"

subsection \<open>printInterface\<close>

text \<open>The loop over \<^verbatim>\<open>typ.Fields\<close> in \<^verbatim>\<open>printInterface\<close>: it prints \<^verbatim>\<open>typ.Description\<close>.\<close>

fun printInterface_fields :: "introspectionTypeDefinition \<Rightarrow> string \<Rightarrow> introspectedTypeField list \<Rightarrow> printed" where
  "printInterface_fields typ sb [] = Returns (sb, None)"
| "printInterface_fields typ sb (field # rest) =
     andThen (printFieldSignature False (printDescription sb (typ_Description typ)) field)
       (\<lambda>sb'. printInterface_fields typ sb' rest)"

definition printInterface :: "string \<Rightarrow> introspectionTypeDefinition \<Rightarrow> printed" where
  "printInterface sb typ =
     (if typ_Kind typ \<noteq> Interface then Returns (sb, Some (CannotPrintAs (typ_Kind typ)))
      else andThen
             (printInterface_fields typ (sb @ ''interface '' @ typ_Name typ @ '' {'' @ NL)
                (typ_Fields typ))
             (\<lambda>sb'. Returns (sb' @ ''}'', None)))"

subsection \<open>printTypes\<close>

text \<open>
  \<^verbatim>\<open>json.Unmarshal\<close> at its two uses: into a \<^verbatim>\<open>[]*introspectedType\<close> and into an
  \<^verbatim>\<open>ast.EnumValueList\<close> (a slice of pointers). The decoder is a parameter of the model.
\<close>

record jsonUnmarshal =
  unmarshalPossibleTypes :: "string \<Rightarrow> goerror + introspectedType option list"
  unmarshalEnumValues :: "string \<Rightarrow> goerror + astEnumValueDefinition option list"

text \<open>The loop over \<^verbatim>\<open>typ.Fields\<close> of the Object case: it prints \<^verbatim>\<open>field.Description\<close>.\<close>

fun printTypes_fields :: "string \<Rightarrow> introspectedTypeField list \<Rightarrow> printed" where
  "printTypes_fields sb [] = Returns (sb, None)"
| "printTypes_fields sb (field # rest) =
     andThen (printFieldSignature True (printDescription sb (field_Description field)) field)
       (\<lambda>sb'. printTypes_fields sb' rest)"

text \<open>The loop over the decoded possible types of the Union case.\<close>

fun printTypes_possible :: "string \<Rightarrow> introspectedType option list \<Rightarrow> printed" where
  "printTypes_possible sb [] = Returns (sb, None)"
| "printTypes_possible sb (typ # possible) =
     andThen (writeAstType sb typ (\<lambda>s. s))
       (\<lambda>sb'. printTypes_possible (if possible \<noteq> [] then sb' @ '' | '' else sb') possible)"

text \<open>The loop over the decoded enum values; \<^verbatim>\<open>value.Description\<close> panics on a nil value.\<close>

fun printTypes_enumValues :: "string \<Rightarrow> astEnumValueDefinition option list \<Rightarrow> printed" where
  "printTypes_enumValues sb [] = Returns (sb, None)"
| "printTypes_enumValues sb (None # enumValues) = NilPointerPanic"
| "printTypes_enumValues sb (Some v # enumValues) =
     printTypes_enumValues (printDescription sb (enum_Description v) @ TAB @ enum_Name v @ NL)
       enumValues"

text \<open>The loop over \<^verbatim>\<open>typ.InputFields\<close> of the InputObject case: it prints \<^verbatim>\<open>typ.Description\<close>.\<close>

fun printTypes_inputFields :: "introspectionTypeDefinition \<Rightarrow> string \<Rightarrow> introspectionInputField list \<Rightarrow> printed" where
  "printTypes_inputFields typ sb [] = Returns (sb, None)"
| "printTypes_inputFields typ sb (field # rest) =
     andThen
       (writeAstType (printDescription sb (typ_Description typ)) (input_Type field)
          (\<lambda>s. TAB @ input_Name field @ '': '' @ s @ NL))
       (\<lambda>sb'. printTypes_inputFields typ sb' rest)"

text \<open>
  The \<^verbatim>\<open>switch typ.Kind\<close> of \<^verbatim>\<open>printTypes\<close>. The error of \<^verbatim>\<open>printInterface\<close> is dropped:
  the call is a statement of its own.
\<close>

definition printTypes_switch :: "jsonUnmarshal \<Rightarrow> string \<Rightarrow> introspectionTypeDefinition \<Rightarrow> printed" where
  "printTypes_switch J sb typ =
     (if typ_Kind typ = Object then
        andThen
          (printTypes_fields
             ((if length (typ_Interfaces typ) > 0
               then writeSeparated '' & '' (sb @ ''type '' @ typ_Name typ @ '' '' @ ''implements '')
                      (map def_Name (typ_Interfaces typ))
               else sb @ ''type '' @ typ_Name typ @ '' '') @ ''{'' @ NL)
             (typ_Fields typ))
          (\<lambda>sb'. Returns (sb' @ ''}'', None))
      else if typ_Kind typ = Union then
        (case unmarshalPossibleTypes J (typ_PossibleTypes typ) of
           Inl err \<Rightarrow> Returns (sb @ ''union '' @ typ_Name typ @ '' ='', Some err)
         | Inr possible \<Rightarrow> printTypes_possible (sb @ ''union '' @ typ_Name typ @ '' ='') possible)
      else if typ_Kind typ = Enum then
        (case unmarshalEnumValues J (typ_EnumValues typ) of
           Inl err \<Rightarrow>
             Returns (sb @ ''enum '' @ typ_Name typ @ '' {'' @ NL,
                      Some (EnumValuesError err (typ_EnumValues typ)))
         | Inr enumValues \<Rightarrow>
             andThen (printTypes_enumValues (sb @ ''enum '' @ typ_Name typ @ '' {'' @ NL) enumValues)
               (\<lambda>sb'. Returns (sb' @ ''}'', None)))
      else if typ_Kind typ = Scalar then
        Returns (sb @ ''scalar '' @ typ_Name typ, None)
      else if typ_Kind typ = InputObject then
        andThen
          (printTypes_inputFields typ (sb @ ''input '' @ typ_Name typ @ '' {'' @ NL)
             (typ_InputFields typ))
          (\<lambda>sb'. Returns (sb' @ ''}'', None))
      else if typ_Kind typ = Interface then
        (case printInterface sb typ of
           NilPointerPanic \<Rightarrow> NilPointerPanic
         | Returns (sb', err) \<Rightarrow> Returns (sb', None))
      else Returns (sb, Some (NotHandlingKind (typ_Kind typ))))"

fun printTypes :: "jsonUnmarshal \<Rightarrow> string \<Rightarrow> introspectionTypeDefinition list \<Rightarrow> bool \<Rightarrow> printed" where
  "printTypes J sb [] withoutBuiltins = Returns (sb, None)"
| "printTypes J sb (typ # types) withoutBuiltins =
     (if HasPrefix (typ_Name typ) ''__'' then printTypes J sb types withoutBuiltins
      else if withoutBuiltins \<and> containsStr (typ_Name typ) excludeScalarTypes \<and> typ_Kind typ = Scalar
      then printTypes J sb types withoutBuiltins
      else andThen (printTypes_switch J (printDescription sb (typ_Description typ)) typ)
             (\<lambda>sb'. printTypes J (sb' @ NL @ NL) types withoutBuiltins))"

subsection \<open>printSchema and the top-level call\<close>

text \<open>
  \<^verbatim>\<open>printSchema\<close> calls \<^verbatim>\<open>printDirectives\<close> and \<^verbatim>\<open>printTypes\<close> on a new builder as
  statements: the error either returns is dropped, and the builder's text is the result.
\<close>

definition printSchema :: "jsonUnmarshal \<Rightarrow> introspectionSchema \<Rightarrow> bool \<Rightarrow> string outcome" where
  "printSchema J schema withoutBuiltins =
     (case printDirectives [] (Directives schema) withoutBuiltins of
        NilPointerPanic \<Rightarrow> NilPointerPanic
      | Returns (sb, err) \<Rightarrow>
          (case printTypes J sb (Types schema) withoutBuiltins of
             NilPointerPanic \<Rightarrow> NilPointerPanic
           | Returns (sb', err') \<Rightarrow> Returns sb'))"

text \<open>\<^verbatim>\<open>BuildClientSchemaOptions\<close>; a header is a key with its values.\<close>

record BuildClientSchemaOptions =
  Endpoint :: string
  Method :: string
  Headers :: "(string \<times> string list) list"
  WithoutBuiltins :: bool

text \<open>
  \<^verbatim>\<open>BuildClientSchemaWithOptions\<close> from the decoding of the response body on. What comes
  before (the request, the exchange over HTTP, \<^verbatim>\<open>json.NewDecoder(res.Body).Decode\<close>) is
  the parameter \<open>response\<close>: \<open>Inl err\<close> when one of these steps failed and the function
  returned \<^verbatim>\<open>("", err)\<close>, \<open>Inr schemaResponse\<close> with the decoded body otherwise.
\<close>

definition BuildClientSchemaWithOptions ::
  "jsonUnmarshal \<Rightarrow> goerror + introspectionResults \<Rightarrow> BuildClientSchemaOptions \<Rightarrow> printed" where
  "BuildClientSchemaWithOptions J response options =
     (case response of
        Inl err \<Rightarrow> Returns ([], Some err)
      | Inr schemaResponse \<Rightarrow>
          if length (Errors schemaResponse) \<noteq> 0 then
            Returns ([], Some (ErrorString
              (''encountered the following GraphQL errors: '' @ Join (Errors schemaResponse) '','')))
          else
            (case printSchema J (Data_Schema schemaResponse) (WithoutBuiltins options) of
               NilPointerPanic \<Rightarrow> NilPointerPanic
             | Returns s \<Rightarrow> Returns (s, None)))"

subsection \<open>The package variables as state\<close>

text \<open>
  The package declares three variables with \<^verbatim>\<open>var\<close>: \<^verbatim>\<open>introspectSchema\<close>,
  \<^verbatim>\<open>excludeScalarTypes\<close> and \<^verbatim>\<open>excludeDirectives\<close>. Go lets any function of the package
  assign to them, so what a call finds in them could depend on the calls before it. Here
  they are a state that a call receives and hands on.
\<close>

record packageVars =
  var_introspectSchema :: string
  var_excludeScalarTypes :: "string list"
  var_excludeDirectives :: "string list"

text \<open>
  Their values when the program starts: the two lists of the \<^verbatim>\<open>var\<close> block, and the text
  of the embedded file \<^verbatim>\<open>introspect.graphql\<close>, which is not among the sources.
\<close>

definition initialPackage :: "string \<Rightarrow> packageVars" where
  "initialPackage query =
     \<lparr>var_introspectSchema = query, var_excludeScalarTypes = excludeScalarTypes,
      var_excludeDirectives = excludeDirectives\<rparr>"

text \<open>
  \<^verbatim>\<open>printDirectives\<close>, \<^verbatim>\<open>printTypes\<close> and \<^verbatim>\<open>printSchema\<close> once more, with the package
  variables passed in and returned. \<^verbatim>\<open>printDirectives\<close> reads \<^verbatim>\<open>excludeDirectives\<close> and
  \<^verbatim>\<open>printTypes\<close> reads \<^verbatim>\<open>excludeScalarTypes\<close>, each in its call of \<^verbatim>\<open>containsStr\<close>;
  the functions they call name no package variable. A panic is given with the variables
  as they were when it happened.
\<close>

fun printDirectives_vars ::
  "packageVars \<Rightarrow> string \<Rightarrow> introspectionDirectiveDefinition list \<Rightarrow> bool \<Rightarrow>
   printed \<times> packageVars" where
  "printDirectives_vars g sb [] withoutBuiltins = (Returns (sb, None), g)"
| "printDirectives_vars g sb (directive # directives) withoutBuiltins =
     (if withoutBuiltins \<and> containsStr (directive_Name directive) (var_excludeDirectives g)
      then printDirectives_vars g sb directives withoutBuiltins
      else (case printDirectives_body sb directive of
              NilPointerPanic \<Rightarrow> (NilPointerPanic, g)
            | Returns (sb', Some err) \<Rightarrow> (Returns (sb', Some err), g)
            | Returns (sb', None) \<Rightarrow> printDirectives_vars g sb' directives withoutBuiltins))"

fun printTypes_vars ::
  "jsonUnmarshal \<Rightarrow> packageVars \<Rightarrow> string \<Rightarrow> introspectionTypeDefinition list \<Rightarrow> bool \<Rightarrow>
   printed \<times> packageVars" where
  "printTypes_vars J g sb [] withoutBuiltins = (Returns (sb, None), g)"
| "printTypes_vars J g sb (typ # types) withoutBuiltins =
     (if HasPrefix (typ_Name typ) ''__'' then printTypes_vars J g sb types withoutBuiltins
      else if withoutBuiltins \<and> containsStr (typ_Name typ) (var_excludeScalarTypes g) \<and>
              typ_Kind typ = Scalar
      then printTypes_vars J g sb types withoutBuiltins
      else (case printTypes_switch J (printDescription sb (typ_Description typ)) typ of
              NilPointerPanic \<Rightarrow> (NilPointerPanic, g)
            | Returns (sb', Some err) \<Rightarrow> (Returns (sb', Some err), g)
            | Returns (sb', None) \<Rightarrow> printTypes_vars J g (sb' @ NL @ NL) types withoutBuiltins))"

definition printSchema_vars ::
  "jsonUnmarshal \<Rightarrow> packageVars \<Rightarrow> introspectionSchema \<Rightarrow> bool \<Rightarrow>
   string outcome \<times> packageVars" where
  "printSchema_vars J g schema withoutBuiltins =
     (case printDirectives_vars g [] (Directives schema) withoutBuiltins of
        (NilPointerPanic, g') \<Rightarrow> (NilPointerPanic, g')
      | (Returns (sb, err), g') \<Rightarrow>
          (case printTypes_vars J g' sb (Types schema) withoutBuiltins of
             (NilPointerPanic, g'') \<Rightarrow> (NilPointerPanic, g'')
           | (Returns (sb', err'), g'') \<Rightarrow> (Returns sb', g'')))"

text \<open>
  Invocations of \<^verbatim>\<open>printSchema\<close> one after the other in one process, each on its schema
  and flag: every call starts with the package variables the call before left (a panic
  being recovered by the caller), and the results are listed in order.
\<close>

fun invocations ::
  "jsonUnmarshal \<Rightarrow> packageVars \<Rightarrow> (introspectionSchema \<times> bool) list \<Rightarrow>
   string outcome list \<times> packageVars" where
  "invocations J g [] = ([], g)"
| "invocations J g ((schema, withoutBuiltins) # calls) =
     (case printSchema_vars J g schema withoutBuiltins of
        (out, g') \<Rightarrow> (case invocations J g' calls of (outs, g'') \<Rightarrow> (out # outs, g'')))"

subsection \<open>Notions used in the properties\<close>

text \<open>The nodes of a type reference, outermost first.\<close>

fun chain :: "introspectedType \<Rightarrow> introspectedType list" where
  "chain (IntrospectedType kind name None) = [IntrospectedType kind name None]"
| "chain (IntrospectedType kind name (Some inner)) =
     IntrospectedType kind name (Some inner) # chain inner"

text \<open>A node with an inner reference whose kind is neither \<^verbatim>\<open>NON_NULL\<close> nor \<^verbatim>\<open>LIST\<close>.\<close>

definition unknownWrapper :: "introspectedType \<Rightarrow> bool" where
  "unknownWrapper n = (OfType n \<noteq> None \<and> Kind n \<noteq> NON_NULL \<and> Kind n \<noteq> LIST)"

text \<open>
  A wrapper chain that ends in a named leaf: every node with an inner reference has kind
  \<^verbatim>\<open>NON_NULL\<close> or \<^verbatim>\<open>LIST\<close>, and the node without one has a name, which is not empty.
\<close>

fun wrapperChain :: "introspectedType \<Rightarrow> bool" where
  "wrapperChain (IntrospectedType kind name None) =
     (case name of None \<Rightarrow> False | Some n \<Rightarrow> n \<noteq> [])"
| "wrapperChain (IntrospectedType kind name (Some inner)) =
     ((kind = NON_NULL \<or> kind = LIST) \<and> wrapperChain inner)"

text \<open>The expression of a reference is already marked non-null: its outermost node is a
  \<^verbatim>\<open>NON_NULL\<close> wrapper.\<close>

definition markedNonNull :: "introspectedType \<Rightarrow> bool" where
  "markedNonNull t = (OfType t \<noteq> None \<and> Kind t = NON_NULL)"

text \<open>
  The nesting a chain implies, in the spec's words: the leaf gives the name, \<^verbatim>\<open>NON_NULL\<close>
  marks the current expression non-null (an exclamation mark after it, once), \<^verbatim>\<open>LIST\<close>
  wraps the current expression as a list element (brackets around it).
\<close>

fun nesting :: "introspectedType \<Rightarrow> string" where
  "nesting (IntrospectedType kind name None) = (case name of None \<Rightarrow> [] | Some n \<Rightarrow> n)"
| "nesting (IntrospectedType kind name (Some inner)) =
     (if kind = NON_NULL then (if markedNonNull inner then nesting inner else nesting inner @ ''!'')
      else if kind = LIST then ''['' @ nesting inner @ '']''
      else [])"

text \<open>The same with one exclamation mark for every \<^verbatim>\<open>NON_NULL\<close> wrapper.\<close>

fun plainNesting :: "introspectedType \<Rightarrow> string" where
  "plainNesting (IntrospectedType kind name None) = (case name of None \<Rightarrow> [] | Some n \<Rightarrow> n)"
| "plainNesting (IntrospectedType kind name (Some inner)) =
     (if kind = NON_NULL then plainNesting inner @ ''!''
      else if kind = LIST then ''['' @ plainNesting inner @ '']''
      else [])"

text \<open>Some \<^verbatim>\<open>NON_NULL\<close> wrapper of the chain wraps a \<^verbatim>\<open>NON_NULL\<close> wrapper directly.\<close>

fun doubledNonNull :: "introspectedType \<Rightarrow> bool" where
  "doubledNonNull (IntrospectedType kind name None) = False"
| "doubledNonNull (IntrospectedType kind name (Some inner)) =
     ((kind = NON_NULL \<and> markedNonNull inner) \<or> doubledNonNull inner)"

text \<open>A result with the text \<open>a\<close> put before what was written.\<close>

definition prepend :: "string \<Rightarrow> printed \<Rightarrow> printed" where
  "prepend a r =
     (case r of NilPointerPanic \<Rightarrow> NilPointerPanic | Returns (sb, err) \<Rightarrow> Returns (a @ sb, err))"


subsection \<open>Example inputs\<close>

text \<open>A node \<^verbatim>\<open>{"kind": kind, "name": n, "ofType": null}\<close>.\<close>

definition named :: "string \<Rightarrow> string \<Rightarrow> introspectedType" where
  "named kind n = IntrospectedType kind (Some n) None"

text \<open>A node \<^verbatim>\<open>{"kind": kind, "name": null, "ofType": inner}\<close>.\<close>

definition wrapping :: "string \<Rightarrow> introspectedType \<Rightarrow> introspectedType" where
  "wrapping kind inner = IntrospectedType kind None (Some inner)"

text \<open>A type definition decoded from \<^verbatim>\<open>{"kind": kind, "name": n}\<close>.\<close>

definition bareType :: "string \<Rightarrow> string \<Rightarrow> introspectionTypeDefinition" where
  "bareType kind n =
     \<lparr>typ_Kind = kind, typ_Name = n, typ_Description = [], typ_Fields = [], typ_InputFields = [],
      typ_Interfaces = [], typ_EnumValues = [], typ_PossibleTypes = []\<rparr>"

text \<open>A schema decoded from \<^verbatim>\<open>{"types": types}\<close>.\<close>

definition schemaOf :: "introspectionTypeDefinition list \<Rightarrow> introspectionSchema" where
  "schemaOf types =
     \<lparr>QueryType = \<lparr>def_Name = []\<rparr>, MutationType = \<lparr>def_Name = []\<rparr>, Types = types,
      Directives = []\<rparr>"

section \<open>Properties\<close>

lemmas kind_defs = NON_NULL_def LIST_def OBJECT_def Scalar_def Object_def Interface_def Union_def
  Enum_def InputObject_def

lemmas example_defs = named_def wrapping_def bareType_def schemaOf_def

lemmas printer_defs = printTypes_switch_def printInterface_def printFieldSignature_def
  printDirectives_body_def writeAstType_def printDescription_def andThen_def printSchema_def
  BuildClientSchemaWithOptions_def HasPrefix_def excludeScalarTypes_def excludeDirectives_def

subsection \<open>The resolver\<close>

lemma NON_NULL_neq_LIST: "NON_NULL \<noteq> LIST"
  by (simp add: NON_NULL_def LIST_def)

lemma Type_String_mark:
  "Type_String ty = Returns s \<Longrightarrow>
   Type_String (Type (NamedType ty) (Elem ty) True) = Returns (if NonNull ty then s else s @ ''!'')"
  by (cases ty; cases "Elem ty") (auto split: if_splits outcome.splits)

lemma resolve_nesting:
  "wrapperChain t \<Longrightarrow>
   \<exists>ty. introspectionTypeToAstType (Some t) = Returns (Inr ty) \<and>
        Type_String ty = Returns (nesting t) \<and> NonNull ty = markedNonNull t"
proof (induction t)
  case (IntrospectedType kind name inner)
  show ?case
  proof (cases inner)
    case None
    with IntrospectedType.prems show ?thesis
      by (auto simp: markedNonNull_def split: option.splits)
  next
    case (Some i)
    with IntrospectedType.prems have k: "kind = NON_NULL \<or> kind = LIST" and wi: "wrapperChain i"
      by auto
    from IntrospectedType.IH [of i] Some wi obtain ty where
      r: "introspectionTypeToAstType (Some i) = Returns (Inr ty)" and
      s: "Type_String ty = Returns (nesting i)" and
      n: "NonNull ty = markedNonNull i"
      by auto
    from k show ?thesis
    proof
      assume "kind = NON_NULL"
      with Some r n Type_String_mark [OF s] show ?thesis
        by (simp add: markedNonNull_def)
    next
      assume "kind = LIST"
      with Some r s show ?thesis
        by (simp add: markedNonNull_def NON_NULL_neq_LIST [symmetric])
    qed
  qed
qed

lemma nesting_plain: "\<not> doubledNonNull t \<Longrightarrow> nesting t = plainNesting t"
proof (induction t)
  case (IntrospectedType kind name inner)
  then show ?case
    by (cases inner) auto
qed

text \<open>
  C2. For every wrapper chain that ends in a named leaf, the resolver returns a type
  expression, and rendering it gives the nesting the chain implies, from the leaf outwards:
  \<^verbatim>\<open>NON_NULL\<close> marks the expression non-null, \<^verbatim>\<open>LIST\<close> wraps it in brackets. Where no
  \<^verbatim>\<open>NON_NULL\<close> wraps another directly, that is one exclamation mark for each \<^verbatim>\<open>NON_NULL\<close>.
\<close>

theorem resolve_then_render:
  assumes "wrapperChain t"
  shows "(\<exists>ty. introspectionTypeToAstType (Some t) = Returns (Inr ty) \<and>
               Type_String ty = Returns (nesting t)) \<and>
         (\<not> doubledNonNull t \<longrightarrow> nesting t = plainNesting t)"
  using resolve_nesting [OF assms] nesting_plain [of t] by blast

theorem resolve_then_render_witness:
  "wrapperChain (wrapping NON_NULL (wrapping LIST (wrapping NON_NULL (named ''SCALAR'' ''String'')))) \<and>
   (\<exists>ty. introspectionTypeToAstType
           (Some (wrapping NON_NULL (wrapping LIST (wrapping NON_NULL (named ''SCALAR'' ''String''))))) =
           Returns (Inr ty) \<and>
         Type_String ty = Returns ''[String!]!'') \<and>
   wrapperChain (wrapping LIST (wrapping NON_NULL (wrapping LIST (named ''SCALAR'' ''String'')))) \<and>
   (\<exists>ty. introspectionTypeToAstType
           (Some (wrapping LIST (wrapping NON_NULL (wrapping LIST (named ''SCALAR'' ''String''))))) =
           Returns (Inr ty) \<and>
         Type_String ty = Returns ''[[String]!]'')"
proof -
  let ?a = "wrapping NON_NULL (wrapping LIST (wrapping NON_NULL (named ''SCALAR'' ''String'')))"
  let ?b = "wrapping LIST (wrapping NON_NULL (wrapping LIST (named ''SCALAR'' ''String'')))"
  have a: "wrapperChain ?a" and b: "wrapperChain ?b"
    by (simp_all add: example_defs)
  have na: "nesting ?a = ''[String!]!''" and nb: "nesting ?b = ''[[String]!]''"
    by (simp_all add: example_defs markedNonNull_def kind_defs)
  from resolve_then_render [OF a] resolve_then_render [OF b] a b show ?thesis
    unfolding na nb by blast
qed

lemma unknownWrapper_simps:
  "unknownWrapper (IntrospectedType kind name None) = False"
  "unknownWrapper (IntrospectedType kind name (Some i)) = (kind \<noteq> NON_NULL \<and> kind \<noteq> LIST)"
  by (simp_all add: unknownWrapper_def)

lemma sublist_extend: "sublist m ys \<Longrightarrow> sublist m (ps @ ys @ ss)"
  unfolding sublist_def by (metis append.assoc)

lemma sublist_after: "sublist m ys \<Longrightarrow> sublist m (ps @ ys)"
  using sublist_extend [of m ys ps "[]"] by simp

lemma resolve_unknown:
  "find unknownWrapper (chain t) = Some n \<Longrightarrow>
   \<exists>err. introspectionTypeToAstType (Some t) = Returns (Inl err) \<and>
     rootCause err = ErrorString (''type kind unknown: '' @ Kind n) \<and>
     sublist (''type kind unknown: '' @ Kind n) (Error pv err)"
proof (induction t)
  case (IntrospectedType kind name inner)
  show ?case
  proof (cases inner)
    case None
    with IntrospectedType.prems show ?thesis
      by (simp add: unknownWrapper_simps)
  next
    case (Some i)
    show ?thesis
    proof (cases "kind = NON_NULL \<or> kind = LIST")
      case True
      with Some IntrospectedType.prems have "find unknownWrapper (chain i) = Some n"
        by (auto simp: unknownWrapper_simps)
      with IntrospectedType.IH [of i] Some obtain err where
        r: "introspectionTypeToAstType (Some i) = Returns (Inl err)" and
        c: "rootCause err = ErrorString (''type kind unknown: '' @ Kind n)" and
        m: "sublist (''type kind unknown: '' @ Kind n) (Error pv err)"
        by auto
      from m have "sublist (''type kind unknown: '' @ Kind n)
          (''convert introspection type to AST type: '' @ Error pv err @
           NL @ pv (PointerOperand (Some i)))"
        by (rule sublist_extend)
      with True Some r c show ?thesis
        by auto
    next
      case False
      with Some IntrospectedType.prems have "n = IntrospectedType kind name (Some i)"
        by (auto simp: unknownWrapper_simps)
      with False Some show ?thesis
        by auto
    qed
  qed
qed

lemma find_unknown:
  "m \<in> set (chain t) \<Longrightarrow> unknownWrapper m \<Longrightarrow> \<exists>n. find unknownWrapper (chain t) = Some n"
  by (metis find_None_iff2 not_Some_eq)

text \<open>
  C7. When a type reference contains a node with an inner reference whose kind is neither
  \<^verbatim>\<open>NON_NULL\<close> nor \<^verbatim>\<open>LIST\<close>, the resolver returns an error. The error made for the outermost
  such node \<open>n\<close> has the text \<^verbatim>\<open>type kind unknown: \<close> followed by the kind of \<open>n\<close>; it is the
  innermost error of the one returned, whose message contains that text.
\<close>

theorem unknown_wrapper_kind_fails:
  assumes "m \<in> set (chain t)" and "unknownWrapper m"
  shows "\<exists>err n. introspectionTypeToAstType (Some t) = Returns (Inl err) \<and>
           find unknownWrapper (chain t) = Some n \<and>
           rootCause err = ErrorString (''type kind unknown: '' @ Kind n) \<and>
           sublist (''type kind unknown: '' @ Kind n) (Error pv err)"
proof -
  from find_unknown [OF assms] obtain n where "find unknownWrapper (chain t) = Some n"
    by blast
  with resolve_unknown [of t n pv] show ?thesis
    by blast
qed

theorem unknown_wrapper_kind_fails_witness:
  "wrapping ''BOGUS'' (named ''SCALAR'' ''String'')
     \<in> set (chain (wrapping NON_NULL (wrapping ''BOGUS'' (named ''SCALAR'' ''String'')))) \<and>
   unknownWrapper (wrapping ''BOGUS'' (named ''SCALAR'' ''String'')) \<and>
   (\<exists>err. introspectionTypeToAstType
            (Some (wrapping NON_NULL (wrapping ''BOGUS'' (named ''SCALAR'' ''String'')))) =
            Returns (Inl err) \<and>
          rootCause err = ErrorString ''type kind unknown: BOGUS'' \<and>
          sublist ''type kind unknown: BOGUS'' (Error (\<lambda>operand. []) err))"
proof -
  let ?m = "wrapping ''BOGUS'' (named ''SCALAR'' ''String'')"
  let ?t = "wrapping NON_NULL ?m"
  have m: "?m \<in> set (chain ?t)" and u: "unknownWrapper ?m"
    by (simp_all add: example_defs unknownWrapper_def kind_defs)
  have f: "find unknownWrapper (chain ?t) = Some ?m"
    by (simp add: example_defs unknownWrapper_def kind_defs)
  have k: "''type kind unknown: '' @ Kind ?m = ''type kind unknown: BOGUS''"
    by (simp add: example_defs)
  from unknown_wrapper_kind_fails [OF m u, of "\<lambda>operand. []"] m u show ?thesis
    unfolding f option.inject by (metis k)
qed

text \<open>
  C8. The claim is that a chain ending in a node with neither inner reference nor name makes
  the resolver return an error. The code reads \<^verbatim>\<open>*typ.Name\<close> at that node without a test:
  the resolver panics, alone and below a wrapper, and the panic goes through the printers up
  to the top-level call.
\<close>

theorem nameless_leaf_panics:
  "introspectionTypeToAstType (Some (IntrospectedType ''SCALAR'' None None)) = NilPointerPanic \<and>
   introspectionTypeToAstType (Some (wrapping NON_NULL (IntrospectedType ''SCALAR'' None None))) =
     NilPointerPanic \<and>
   (\<forall>J options. BuildClientSchemaWithOptions J
      (Inr \<lparr>Errors = [], Data_Schema = schemaOf
         [(bareType Object ''Query'')\<lparr>typ_Fields :=
            [\<lparr>field_Name = ''hello'', field_Description = [], field_Args = [],
              field_Type = Some (IntrospectedType ''SCALAR'' None None)\<rparr>]\<rparr>]\<rparr>)
      options = NilPointerPanic)"
  by (simp add: example_defs printer_defs kind_defs)

text \<open>
  C10. A node with a name and no inner reference resolves to that name as a plain named
  type, whatever its kind: the test for the inner reference comes before the switch on the
  kind.
\<close>

theorem leaf_resolves_whatever_kind:
  "introspectionTypeToAstType (Some (IntrospectedType kind (Some n) None)) =
     Returns (Inr (Type n None False))"
  by simp

theorem leaf_resolves_whatever_kind_witness:
  "introspectionTypeToAstType (Some (named NON_NULL ''String'')) =
     Returns (Inr (Type ''String'' None False)) \<and>
   introspectionTypeToAstType (Some (named LIST ''String'')) =
     Returns (Inr (Type ''String'' None False)) \<and>
   introspectionTypeToAstType (Some (named ''BOGUS'' ''String'')) =
     Returns (Inr (Type ''String'' None False))"
  unfolding named_def
  by (intro conjI leaf_resolves_whatever_kind)

subsection \<open>What a printer writes does not depend on what was written before\<close>

lemma prepend_simps:
  "prepend a NilPointerPanic = NilPointerPanic"
  "prepend a (Returns (sb, err)) = Returns (a @ sb, err)"
  by (simp_all add: prepend_def)

lemma andThen_simps:
  "andThen NilPointerPanic k = NilPointerPanic"
  "andThen (Returns (sb, Some err)) k = Returns (sb, Some err)"
  "andThen (Returns (sb, None)) k = k sb"
  by (simp_all add: andThen_def)

lemma andThen_prepend:
  assumes "\<And>sb. k (a @ sb) = prepend a (k sb)"
  shows "andThen (prepend a r) k = prepend a (andThen r k)"
proof (cases r)
  case NilPointerPanic
  then show ?thesis by (simp add: prepend_simps andThen_simps)
next
  case (Returns p)
  obtain sb err where p: "p = (sb, err)" by (cases p)
  show ?thesis
    using assms by (cases err) (simp_all add: Returns p prepend_simps andThen_simps)
qed

lemma printDescription_append: "printDescription (a @ sb) d = a @ printDescription sb d"
  by (simp add: printDescription_def)

lemma writeAstType_append:
  "writeAstType (a @ sb) ref format = prepend a (writeAstType sb ref format)"
  by (simp add: writeAstType_def prepend_simps split: outcome.splits sum.splits)

lemma writeSeparated_append: "writeSeparated sep (a @ sb) xs = a @ writeSeparated sep sb xs"
  by (induction sep sb xs rule: writeSeparated.induct) simp_all

lemma printArgs_append:
  "printArgs indent described (a @ sb) args = prepend a (printArgs indent described sb args)"
proof (induction args arbitrary: sb)
  case Nil
  show ?case by (simp add: prepend_simps)
next
  case (Cons arg args)
  then show ?case
    by (cases described)
      (simp_all add: printDescription_append [where a = a] writeAstType_append [where a = a]
        andThen_prepend)
qed


lemma printDirectives_body_append:
  "printDirectives_body (a @ sb) d = prepend a (printDirectives_body sb d)"
  by (simp add: printDirectives_body_def printDescription_append [where a = a]
      printArgs_append [where a = a] andThen_prepend prepend_simps andThen_simps
      writeSeparated_append [where a = a])

lemma printDirectives_append:
  "printDirectives (a @ sb) ds wb = prepend a (printDirectives sb ds wb)"
proof (induction ds arbitrary: sb)
  case Nil
  show ?case by (simp add: prepend_simps)
next
  case (Cons d ds)
  then show ?case
    by (cases wb) (simp_all add: printDirectives_body_append [where a = a] andThen_prepend)
qed










subsection \<open>Invocations one after the other\<close>

lemma printDirectives_vars_keeps: "snd (printDirectives_vars g sb ds wb) = g"
  by (induction ds arbitrary: sb) (auto split: outcome.splits option.splits)

lemma printTypes_vars_keeps: "snd (printTypes_vars J g sb ts wb) = g"
  by (induction ts arbitrary: sb) (auto split: outcome.splits option.splits)

lemma printSchema_vars_keeps: "snd (printSchema_vars J g schema wb) = g"
proof -
  obtain r g' where d: "printDirectives_vars g [] (Directives schema) wb = (r, g')"
    by (cases "printDirectives_vars g [] (Directives schema) wb")
  with printDirectives_vars_keeps [of g "[]" "Directives schema" wb] have g': "g' = g"
    by simp
  show ?thesis
  proof (cases r)
    case NilPointerPanic
    with d g' show ?thesis by (simp add: printSchema_vars_def)
  next
    case (Returns p)
    obtain sb err where p: "p = (sb, err)" by (cases p)
    obtain r2 g2 where t: "printTypes_vars J g sb (Types schema) wb = (r2, g2)"
      by (cases "printTypes_vars J g sb (Types schema) wb")
    with printTypes_vars_keeps [of J g sb "Types schema" wb] have "g2 = g"
      by simp
    with d g' Returns p t show ?thesis
      by (cases r2) (auto simp: printSchema_vars_def)
  qed
qed

lemma invocations_alone:
  "invocations J g calls = (map (\<lambda>(schema, wb). fst (printSchema_vars J g schema wb)) calls, g)"
proof (induction calls)
  case Nil
  show ?case by simp
next
  case (Cons c calls)
  obtain schema wb where c: "c = (schema, wb)" by (cases c)
  obtain out g' where r: "printSchema_vars J g schema wb = (out, g')"
    by (cases "printSchema_vars J g schema wb")
  with printSchema_vars_keeps [of J g schema wb] have "g' = g" by simp
  with Cons c r show ?case by simp
qed

lemma printDirectives_vars_initial:
  "fst (printDirectives_vars (initialPackage q) sb ds wb) = printDirectives sb ds wb"
  by (induction ds arbitrary: sb)
    (auto simp: initialPackage_def andThen_def split: outcome.splits option.splits)

lemma printTypes_vars_initial:
  "fst (printTypes_vars J (initialPackage q) sb ts wb) = printTypes J sb ts wb"
  by (induction ts arbitrary: sb)
    (auto simp: initialPackage_def andThen_def split: outcome.splits option.splits)

lemma printSchema_vars_initial:
  "fst (printSchema_vars J (initialPackage q) schema wb) = printSchema J schema wb"
proof -
  let ?g = "initialPackage q"
  have d: "printDirectives_vars ?g [] (Directives schema) wb =
      (printDirectives [] (Directives schema) wb, ?g)"
    using printDirectives_vars_initial [of q "[]" "Directives schema" wb]
      printDirectives_vars_keeps [of ?g "[]" "Directives schema" wb]
    by (metis prod.collapse)
  have t: "printTypes_vars J ?g sb (Types schema) wb = (printTypes J sb (Types schema) wb, ?g)" for sb
    using printTypes_vars_initial [of J q sb "Types schema" wb]
      printTypes_vars_keeps [of J ?g sb "Types schema" wb]
    by (metis prod.collapse)
  show ?thesis
    by (simp add: printSchema_vars_def printSchema_def d t split: outcome.splits prod.splits)
qed

text \<open>
  C9. Two invocations of the printer on the same schema and flag give the same text, and
  no state passes from one call to the next. With the package variables as state: from
  any values of them, a sequence of calls leaves them as they were and gives, call by call,
  what each call gives alone; in a process started with the package's own values every
  call gives \<open>printSchema\<close> of its schema and flag, a function of these two (and of the
  decoder of raw messages); and two calls in a row on the same inputs agree.
\<close>

theorem printSchema_invocations:
  "invocations J g calls =
     (map (\<lambda>(schema, withoutBuiltins). fst (printSchema_vars J g schema withoutBuiltins)) calls, g) \<and>
   invocations J (initialPackage query) calls =
     (map (\<lambda>(schema, withoutBuiltins). printSchema J schema withoutBuiltins) calls,
      initialPackage query) \<and>
   (\<forall>out1 out2 g'.
      invocations J g [(schema, withoutBuiltins), (schema, withoutBuiltins)] = ([out1, out2], g') \<longrightarrow>
      out1 = out2 \<and> g' = g)"
proof -
  have "out1 = out2 \<and> g' = g"
    if "invocations J g [(schema, withoutBuiltins), (schema, withoutBuiltins)] = ([out1, out2], g')"
    for out1 out2 g'
    using that unfolding invocations_alone by auto
  moreover have "invocations J (initialPackage query) calls =
      (map (\<lambda>(schema, withoutBuiltins). printSchema J schema withoutBuiltins) calls,
       initialPackage query)"
    unfolding invocations_alone by (simp add: printSchema_vars_initial)
  ultimately show ?thesis
    using invocations_alone [of J g calls] by blast
qed

theorem printSchema_invocations_witness:
  "\<forall>J withoutBuiltins.
     invocations J (initialPackage ''query'')
       [(schemaOf [bareType Scalar ''Date''], withoutBuiltins),
        (schemaOf [bareType Scalar ''Date''], withoutBuiltins)] =
       ([Returns (''scalar Date'' @ NL @ NL), Returns (''scalar Date'' @ NL @ NL)],
        initialPackage ''query'')"
proof (intro allI)
  fix J withoutBuiltins
  let ?s = "schemaOf [bareType Scalar ''Date'']"
  have e: "printSchema J ?s withoutBuiltins = Returns (''scalar Date'' @ NL @ NL)"
    by (simp add: example_defs printer_defs kind_defs)
  have "invocations J (initialPackage ''query'') [(?s, withoutBuiltins), (?s, withoutBuiltins)] =
      (map (\<lambda>(schema, withoutBuiltins). printSchema J schema withoutBuiltins)
         [(?s, withoutBuiltins), (?s, withoutBuiltins)],
       initialPackage ''query'')"
    using printSchema_invocations [of J _ "[(?s, withoutBuiltins), (?s, withoutBuiltins)]" "''query''"]
    by blast
  also have "\<dots> = ([Returns (''scalar Date'' @ NL @ NL), Returns (''scalar Date'' @ NL @ NL)],
      initialPackage ''query'')"
    using e by simp
  finally show "invocations J (initialPackage ''query'')
      [(?s, withoutBuiltins), (?s, withoutBuiltins)] =
      ([Returns (''scalar Date'' @ NL @ NL), Returns (''scalar Date'' @ NL @ NL)],
       initialPackage ''query'')" .
qed

subsection \<open>A printer only adds to the builder\<close>


















subsection \<open>Types the printer skips\<close>


lemma printTypes_meta:
  "HasPrefix (typ_Name typ) ''__'' \<Longrightarrow>
   printTypes J sb (before @ typ # after) wb = printTypes J sb (before @ after) wb"
proof (induction before arbitrary: sb)
  case Nil
  then show ?case by simp
next
  case (Cons b before)
  then show ?case by (cases wb) simp_all
qed

text \<open>
  C6. A type definition whose name begins with \<^verbatim>\<open>__\<close> is skipped for both values of the
  flag: wherever it stands in the list of types, \<^verbatim>\<open>printTypes\<close> and \<^verbatim>\<open>printSchema\<close> give
  what they give on the list without it.
\<close>

theorem meta_types_never_printed:
  assumes "HasPrefix (typ_Name typ) ''__''"
  shows "printTypes J sb (before @ typ # after) withoutBuiltins =
           printTypes J sb (before @ after) withoutBuiltins \<and>
         printSchema J (schema\<lparr>Types := before @ typ # after\<rparr>) withoutBuiltins =
           printSchema J (schema\<lparr>Types := before @ after\<rparr>) withoutBuiltins"
  using assms by (simp add: printSchema_def printTypes_meta cong: outcome.case_cong)

theorem meta_types_never_printed_witness:
  "HasPrefix (typ_Name (bareType Object ''__Type'')) ''__'' \<and>
   (\<forall>J withoutBuiltins.
      printSchema J
        (schemaOf [bareType Scalar ''Date'', bareType Object ''__Type'', bareType Scalar ''Time''])
        withoutBuiltins =
      printSchema J (schemaOf [bareType Scalar ''Date'', bareType Scalar ''Time'']) withoutBuiltins \<and>
      printSchema J (schemaOf [bareType Scalar ''Date'', bareType Scalar ''Time'']) withoutBuiltins =
        Returns (''scalar Date'' @ NL @ NL @ ''scalar Time'' @ NL @ NL))"
proof -
  let ?t = "bareType Object ''__Type''"
  have h: "HasPrefix (typ_Name ?t) ''__''"
    by (simp add: example_defs HasPrefix_def)
  have s: "(schemaOf [])\<lparr>Types := ts\<rparr> = schemaOf ts" for ts
    by (simp add: schemaOf_def)
  have "printSchema J (schemaOf ([bareType Scalar ''Date''] @ ?t # [bareType Scalar ''Time''])) wb =
      printSchema J (schemaOf ([bareType Scalar ''Date''] @ [bareType Scalar ''Time''])) wb" for J wb
    using meta_types_never_printed
      [OF h, of J _ "[bareType Scalar ''Date'']" "[bareType Scalar ''Time'']" wb "schemaOf []"]
    unfolding s by simp
  moreover have "printSchema J (schemaOf [bareType Scalar ''Date'', bareType Scalar ''Time'']) wb =
      Returns (''scalar Date'' @ NL @ NL @ ''scalar Time'' @ NL @ NL)" for J wb
    by (simp add: example_defs printer_defs kind_defs)
  ultimately show ?thesis using h by simp
qed





subsection \<open>The top-level call\<close>

lemma sublist_Join: "m \<in> set xs \<Longrightarrow> sublist m (Join xs sep)"
proof (induction xs sep rule: Join.induct)
  case (1 sep)
  then show ?case by simp
next
  case (2 x sep)
  then show ?case by simp
next
  case (3 x y ys sep)
  show ?case
  proof (cases "m = x")
    case True
    then show ?thesis by (simp add: sublist_append_rightI)
  next
    case False
    with 3 have "sublist m (Join (y # ys) sep)" by simp
    then have "sublist m ((x @ sep) @ Join (y # ys) sep)"
      by (rule sublist_after)
    then show ?thesis by simp
  qed
qed

text \<open>
  C3. When the decoded response has a non-empty \<^verbatim>\<open>errors\<close> array, the call returns the empty
  text with an error, whatever the schema of the response holds; the message of the error
  is \<^verbatim>\<open>encountered the following GraphQL errors: \<close> followed by the messages joined with
  commas, so every message is part of it.
\<close>

theorem graphql_errors_fail:
  assumes "Errors schemaResponse \<noteq> []"
  shows "\<exists>err. BuildClientSchemaWithOptions J (Inr schemaResponse) options = Returns ([], Some err) \<and>
           Error pv err =
             ''encountered the following GraphQL errors: '' @ Join (Errors schemaResponse) '','' \<and>
           (\<forall>m\<in>set (Errors schemaResponse). sublist m (Error pv err))"
proof -
  let ?err = "ErrorString
    (''encountered the following GraphQL errors: '' @ Join (Errors schemaResponse) '','')"
  have "BuildClientSchemaWithOptions J (Inr schemaResponse) options = Returns ([], Some ?err)"
    using assms by (simp add: BuildClientSchemaWithOptions_def)
  moreover have "Error pv ?err =
      ''encountered the following GraphQL errors: '' @ Join (Errors schemaResponse) '',''"
    by (simp only: Error.simps)
  moreover have "\<forall>m\<in>set (Errors schemaResponse). sublist m (Error pv ?err)"
    unfolding Error.simps by (intro ballI sublist_after sublist_Join)
  ultimately show ?thesis by blast
qed

theorem graphql_errors_fail_witness:
  "Errors \<lparr>Errors = [''boom'', ''bang''], Data_Schema = schemaOf [bareType Scalar ''Date'']\<rparr> \<noteq> [] \<and>
   (\<forall>J options. \<exists>err.
      BuildClientSchemaWithOptions J
        (Inr \<lparr>Errors = [''boom'', ''bang''], Data_Schema = schemaOf [bareType Scalar ''Date'']\<rparr>)
        options = Returns ([], Some err) \<and>
      Error (\<lambda>operand. []) err = ''encountered the following GraphQL errors: boom,bang'' \<and>
      sublist ''boom'' (Error (\<lambda>operand. []) err) \<and> sublist ''bang'' (Error (\<lambda>operand. []) err)) \<and>
   (\<forall>J. printSchema J (schemaOf [bareType Scalar ''Date'']) False = Returns (''scalar Date'' @ NL @ NL))"
proof -
  let ?r = "\<lparr>Errors = [''boom'', ''bang''], Data_Schema = schemaOf [bareType Scalar ''Date'']\<rparr>"
  have e: "Errors ?r \<noteq> []" by simp
  have j: "''encountered the following GraphQL errors: '' @ Join (Errors ?r) '','' =
      ''encountered the following GraphQL errors: boom,bang''"
    by simp
  have p: "\<forall>J. printSchema J (schemaOf [bareType Scalar ''Date'']) False =
      Returns (''scalar Date'' @ NL @ NL)"
    by (simp add: example_defs printer_defs kind_defs)
  have "\<exists>err. BuildClientSchemaWithOptions J (Inr ?r) options = Returns ([], Some err) \<and>
      Error (\<lambda>operand. []) err = ''encountered the following GraphQL errors: boom,bang'' \<and>
      sublist ''boom'' (Error (\<lambda>operand. []) err) \<and> sublist ''bang'' (Error (\<lambda>operand. []) err)"
    for J options
    using graphql_errors_fail [OF e, of J options "\<lambda>operand. []"] unfolding j by auto
  with e p show ?thesis by blast
qed

text \<open>
  C1. The claim is that a type reference that fails to resolve, or a type definition of an
  unhandled kind, makes the top-level call return an error and no text. \<^verbatim>\<open>printTypes\<close>
  does stop with the error, but \<^verbatim>\<open>printSchema\<close> drops it and returns the builder's text,
  and \<^verbatim>\<open>BuildClientSchemaWithOptions\<close> returns that text with a nil error: for a type
  \<^verbatim>\<open>Query\<close> whose field has a wrapper of kind \<^verbatim>\<open>BOGUS\<close>, followed by a scalar, the result is
  the text cut off after the field's name, with no error; for a type definition of kind
  \<^verbatim>\<open>BOGUS\<close> it is the empty text, with no error.
\<close>

theorem printing_errors_dropped:
  "\<forall>J options.
     printTypes J []
       [(bareType Object ''Query'')\<lparr>typ_Fields :=
          [\<lparr>field_Name = ''hello'', field_Description = [], field_Args = [],
            field_Type = Some (wrapping ''BOGUS'' (named ''SCALAR'' ''String''))\<rparr>]\<rparr>,
        bareType Scalar ''Date'']
       (WithoutBuiltins options) =
       Returns (''type Query {'' @ NL @ TAB @ ''hello'',
         Some (ConvertError (ErrorString ''type kind unknown: BOGUS'')
                 (Some (wrapping ''BOGUS'' (named ''SCALAR'' ''String''))))) \<and>
     BuildClientSchemaWithOptions J
       (Inr \<lparr>Errors = [], Data_Schema = schemaOf
          [(bareType Object ''Query'')\<lparr>typ_Fields :=
             [\<lparr>field_Name = ''hello'', field_Description = [], field_Args = [],
               field_Type = Some (wrapping ''BOGUS'' (named ''SCALAR'' ''String''))\<rparr>]\<rparr>,
           bareType Scalar ''Date'']\<rparr>)
       options = Returns (''type Query {'' @ NL @ TAB @ ''hello'', None) \<and>
     printTypes J [] [bareType ''BOGUS'' ''Thing'', bareType Scalar ''Date''] (WithoutBuiltins options) =
       Returns ([], Some (NotHandlingKind ''BOGUS'')) \<and>
     BuildClientSchemaWithOptions J
       (Inr \<lparr>Errors = [],
             Data_Schema = schemaOf [bareType ''BOGUS'' ''Thing'', bareType Scalar ''Date'']\<rparr>)
       options = Returns ([], None)"
  by (simp add: example_defs printer_defs kind_defs)

subsection \<open>Descriptions of fields\<close>

text \<open>
  C4. The claim is that the description printed before a field is the field's own. The
  Object case prints \<^verbatim>\<open>field.Description\<close>; \<^verbatim>\<open>printInterface\<close> and the InputObject case
  print \<^verbatim>\<open>typ.Description\<close> there. With a type described as \<^verbatim>\<open>T\<close> and a field \<^verbatim>\<open>id\<close>
  described as \<^verbatim>\<open>F\<close>, the interface and the input object show \<^verbatim>\<open>T\<close> before the field, the
  object shows \<^verbatim>\<open>F\<close>.
\<close>

theorem type_description_before_fields:
  "\<forall>J withoutBuiltins.
     printTypes J []
       [(bareType Interface ''Node'')\<lparr>typ_Description := ''T'', typ_Fields :=
          [\<lparr>field_Name = ''id'', field_Description = ''F'', field_Args = [],
            field_Type = Some (named ''SCALAR'' ''ID'')\<rparr>]\<rparr>] withoutBuiltins =
       Returns (triple_quote @ ''T'' @ triple_quote @ NL @ ''interface Node {'' @ NL @
                triple_quote @ ''T'' @ triple_quote @ NL @ TAB @ ''id: ID'' @ NL @ ''}'' @ NL @ NL,
                None) \<and>
     printTypes J []
       [(bareType InputObject ''Filter'')\<lparr>typ_Description := ''T'', typ_InputFields :=
          [\<lparr>input_Name = ''id'', input_Description = ''F'',
            input_Type = Some (named ''SCALAR'' ''ID'')\<rparr>]\<rparr>] withoutBuiltins =
       Returns (triple_quote @ ''T'' @ triple_quote @ NL @ ''input Filter {'' @ NL @
                triple_quote @ ''T'' @ triple_quote @ NL @ TAB @ ''id: ID'' @ NL @ ''}'' @ NL @ NL,
                None) \<and>
     printTypes J []
       [(bareType Object ''Query'')\<lparr>typ_Description := ''T'', typ_Fields :=
          [\<lparr>field_Name = ''id'', field_Description = ''F'', field_Args = [],
            field_Type = Some (named ''SCALAR'' ''ID'')\<rparr>]\<rparr>] withoutBuiltins =
       Returns (triple_quote @ ''T'' @ triple_quote @ NL @ ''type Query {'' @ NL @
                triple_quote @ ''F'' @ triple_quote @ NL @ TAB @ ''id: ID'' @ NL @ ''}'' @ NL @ NL,
                None)"
  by (simp add: example_defs printer_defs kind_defs)

end
